theory Spec2Isabelle
  imports Complex_Main
begin

section \<open>Numbers\<close>

text \<open>
  A JavaScript \<open>Number\<close> that holds an amount of money or a duration is modelled as an
  exact rational, so that a fractional value has a meaning. Doubles agree with the
  rationals as long as every operand and result is an integer below \<open>2^53\<close> in
  magnitude (or a dyadic fraction of at most 53 bits), which is the case at every
  concrete input evaluated in this theory; beyond that doubles round, and \<open>NaN\<close> and the
  infinities have no counterpart here.
\<close>

type_synonym number = rat

section \<open>Dates\<close>

text \<open>
  A JavaScript \<open>Date\<close> is modelled by its local calendar fields, the way the code reads
  it (\<open>getFullYear\<close>, \<open>getMonth\<close>, \<open>getDate\<close>); \<open>monthIndex\<close> is zero-based as in
  JavaScript and \<open>dayOfMonth\<close> is in \<open>1..31\<close> for every date the engine hands out.
  \<open>getTime\<close> is the time value that \<open>$lte\<close>, \<open>$gte\<close> and the subtraction of two
  dates work on (local milliseconds; a fixed zone offset does not change any comparison).
\<close>

record date =
  fullYear :: int
  monthIndex :: nat
  dayOfMonth :: nat
  msInDay :: nat

definition isLeapYear :: "int \<Rightarrow> bool" where
  "isLeapYear y = (y mod 4 = 0 \<and> (y mod 100 \<noteq> 0 \<or> y mod 400 = 0))"

definition daysInMonth :: "int \<Rightarrow> nat \<Rightarrow> nat" where
  "daysInMonth y m =
     (if m = 1 then (if isLeapYear y then 29 else 28)
      else if m = 3 \<or> m = 5 \<or> m = 8 \<or> m = 10 then 30
      else 31)"

definition daysFromCivil :: "int \<Rightarrow> nat \<Rightarrow> nat \<Rightarrow> int" where
  "daysFromCivil y m d =
     (let y' = (if m \<le> 1 then y - 1 else y);
          era = y' div 400;
          yoe = y' - era * 400;
          mp = int ((m + 10) mod 12);
          doy = (153 * mp + 2) div 5 + int d - 1;
          doe = yoe * 365 + yoe div 4 - yoe div 100 + doy
      in era * 146097 + doe - 719468)"

definition getTime :: "date \<Rightarrow> int" where
  "getTime d =
     daysFromCivil (fullYear d) (monthIndex d) (dayOfMonth d) * 86400000 + int (msInDay d)"

text \<open>
  \<open>Date.prototype.setMonth(m)\<close> for \<open>m \<ge> 0\<close>: months beyond December carry into the
  year, and a day that the target month does not have spills into the month after it
  (January 31 moved to February becomes March 3, or March 2 in a leap year). One spill
  is enough because \<open>dayOfMonth \<le> 31\<close> and no month is shorter than 28 days.
\<close>

definition setMonth :: "date \<Rightarrow> nat \<Rightarrow> date" where
  "setMonth d m =
     (let y = fullYear d + int (m div 12);
          mo = m mod 12;
          dim = daysInMonth y mo
      in if dayOfMonth d \<le> dim then d\<lparr>fullYear := y, monthIndex := mo\<rparr>
         else d\<lparr>fullYear := (if mo = 11 then y + 1 else y),
                monthIndex := (mo + 1) mod 12,
                dayOfMonth := dayOfMonth d - dim\<rparr>)"

subsection \<open>Number formatting\<close>

fun str_of_nat :: "nat \<Rightarrow> string" where
  "str_of_nat n =
     (if n < 10 then [''0123456789'' ! n]
      else str_of_nat (n div 10) @ [''0123456789'' ! (n mod 10)])"

declare str_of_nat.simps [simp del]

definition str_of_int :: "int \<Rightarrow> string" where
  "str_of_int i = (if i < 0 then ''-'' @ str_of_nat (nat (- i)) else str_of_nat (nat i))"

definition padStart :: "nat \<Rightarrow> char \<Rightarrow> string \<Rightarrow> string" where
  "padStart n c s = replicate (n - length s) c @ s"

section \<open>The Booking document\<close>

datatype booking_status =
  B_pending | B_confirmed | B_deposit_paid | B_active | B_completed | B_cancelled | B_expired

datatype deposit_state = D_pending | D_paid | D_refunded

datatype monthly_state = M_pending | M_paid | M_overdue

datatype payment_method = PM_vnpay | PM_bank_transfer | PM_cash | PM_other | PM_pending

datatype role = Admin | Landlord | Tenant

type_synonym oid = string

record bookingDetails =
  checkInDate :: date
  checkOutDate :: date
  duration :: number
  numberOfOccupants :: int

record pricing =
  monthlyRent :: number
  deposit :: number
  utilities :: number
  totalAmount :: number

record depositStatus =
  dep_status :: deposit_state
  dep_amount :: "number option"
  dep_paidAt :: "date option"
  dep_paymentMethod :: "payment_method option"
  dep_transactionId :: "string option"

record monthlyEntry =
  mon_month :: string
  mon_amount :: number
  mon_status :: monthly_state
  mon_dueDate :: date

record cancellation =
  cancelledBy :: role
  cancelledAt :: date
  reason :: string

record booking =
  b_id :: oid
  b_room :: oid
  b_tenant :: oid
  b_landlord :: oid
  b_details :: bookingDetails
  b_pricing :: pricing
  b_status :: booking_status
  b_deposit :: depositStatus
  b_monthly :: "monthlyEntry list"
  b_contractNumber :: "string option"
  b_cancellation :: "cancellation option"

subsection \<open>Methods of the Booking schema\<close>

definition calculateTotalAmount :: "booking \<Rightarrow> booking" where
  "calculateTotalAmount b =
     (let monthlyTotal = monthlyRent (b_pricing b) * duration (b_details b);
          utilitiesTotal = utilities (b_pricing b) * duration (b_details b)
      in b\<lparr>b_pricing := (b_pricing b)
             \<lparr>totalAmount := monthlyTotal + utilitiesTotal + deposit (b_pricing b)\<rparr>\<rparr>)"

definition canBeCancelled :: "booking \<Rightarrow> bool" where
  "canBeCancelled b = (b_status b \<in> set [B_pending, B_confirmed, B_deposit_paid])"

definition monthLabel :: "date \<Rightarrow> string" where
  "monthLabel d =
     str_of_int (fullYear d) @ ''-'' @ padStart 2 (CHR ''0'') (str_of_nat (monthIndex d + 1))"

definition monthlyPaymentAt :: "booking \<Rightarrow> nat \<Rightarrow> monthlyEntry" where
  "monthlyPaymentAt b i =
     (let startDate = checkInDate (b_details b);
          dueDate = setMonth startDate (monthIndex startDate + i)
      in \<lparr>mon_month = monthLabel dueDate,
          mon_amount = monthlyRent (b_pricing b) + utilities (b_pricing b),
          mon_status = M_pending,
          mon_dueDate = dueDate\<rparr>)"

text \<open>
  The \<open>for\<close> loop of \<open>generateMonthlyPayments\<close>: \<open>i\<close> counts up from 0 while
  \<open>i < duration\<close>, so a duration that is not a whole number runs it once more than its
  whole part.
\<close>

function monthlyLoop :: "booking \<Rightarrow> nat \<Rightarrow> monthlyEntry list \<Rightarrow> monthlyEntry list" where
  "monthlyLoop b i payments =
     (if of_nat i < duration (b_details b)
      then monthlyLoop b (Suc i) (payments @ [monthlyPaymentAt b i])
      else payments)"
  by pat_completeness auto
termination
proof (relation "measure (\<lambda>(b, i, payments). nat \<lceil>duration (b_details b)\<rceil> - i)")
  show "wf (measure (\<lambda>(b, i, payments). nat \<lceil>duration (b_details b)\<rceil> - i))"
    by simp
next
  fix b :: booking and i :: nat and payments :: "monthlyEntry list"
  assume "of_nat i < duration (b_details b)"
  then have "int i < \<lceil>duration (b_details b)\<rceil>"
    by (simp add: less_ceiling_iff)
  then show "((b, Suc i, payments @ [monthlyPaymentAt b i]), (b, i, payments))
             \<in> measure (\<lambda>(b, i, payments). nat \<lceil>duration (b_details b)\<rceil> - i)"
    by simp
qed

declare monthlyLoop.simps [simp del]

definition generateMonthlyPayments :: "booking \<Rightarrow> booking" where
  "generateMonthlyPayments b = b\<lparr>b_monthly := monthlyLoop b 0 []\<rparr>"

section \<open>The Payment document\<close>

datatype payment_status =
  P_pending | P_processing | P_completed | P_failed | P_cancelled | P_refunded

datatype payment_type = T_deposit | T_monthly_rent | T_utilities | T_penalty | T_refund

datatype refund_state = R_pending | R_processing | R_completed | R_failed

text \<open>
  The parameters of a callback, and the object under \<open>payment.vnpay\<close>, have strings for
  values. \<open>p_vnpay\<close> is that object as the handlers build it; how the schema casts it
  when it is assigned is not modelled.
\<close>

type_synonym params = "string \<rightharpoonup> string"

record refund =
  rf_amount :: "number option"
  rf_reason :: "string option"
  rf_processedAt :: "date option"
  rf_refundTransactionId :: "string option"
  rf_status :: "refund_state option"

record payment =
  p_id :: oid
  p_booking :: oid
  p_payer :: oid
  p_recipient :: oid
  p_type :: payment_type
  p_amount :: number
  p_status :: payment_status
  p_paymentMethod :: payment_method
  p_vnpay :: params
  p_transactionId :: "string option"
  p_externalTransactionId :: "string option"
  p_description :: "string option"
  p_initiatedAt :: "date option"
  p_processedAt :: "date option"
  p_completedAt :: "date option"
  p_failedAt :: "date option"
  p_failureReason :: "string option"
  p_refund :: refund
  p_paymentSource :: "string option"

subsection \<open>Methods of the Payment schema\<close>

text \<open>
  \<open>canBeRefunded\<close> is
  \<^verbatim>\<open>this.status === 'completed' && !this.refund.status || this.refund.status === 'pending'\<close>;
  \<open>&&\<close> binds tighter than \<open>||\<close>.
\<close>

definition canBeRefunded :: "payment \<Rightarrow> bool" where
  "canBeRefunded p =
     ((p_status p = P_completed \<and> rf_status (p_refund p) = None)
      \<or> rf_status (p_refund p) = Some R_pending)"

text \<open>\<open>amount || this.amount\<close>: an absent or zero number is falsy.\<close>

definition orNumber :: "('a::zero) option \<Rightarrow> 'a \<Rightarrow> 'a" where
  "orNumber a d = (case a of None \<Rightarrow> d | Some v \<Rightarrow> if v = 0 then d else v)"

definition processRefund :: "date \<Rightarrow> number option \<Rightarrow> string option \<Rightarrow> payment \<Rightarrow> string + payment" where
  "processRefund now amount rsn p =
     (if \<not> canBeRefunded p then Inl ''Payment cannot be refunded''
      else Inr (p\<lparr>p_refund :=
                    \<lparr>rf_amount = Some (orNumber amount (p_amount p)),
                     rf_reason = rsn,
                     rf_processedAt = Some now,
                     rf_refundTransactionId = None,
                     rf_status = Some R_processing\<rparr>\<rparr>))"

section \<open>The environment\<close>

text \<open>
  What a request sees besides the store: the clock (\<open>new Date()\<close>), the identifiers
  that Mongoose and the \<open>pre('save')\<close> hooks generate for new documents, and the gateway
  configuration. \<open>hashSecret\<close> is \<open>process.env.VNPAY_HASH_SECRET\<close>, absent when the
  variable is not set. \<open>signParams k ps\<close> stands for the hexadecimal HMAC-SHA512 under
  the key \<open>k\<close> of the canonical query string of \<open>ps\<close>, that is for
  \<open>querystring.stringify(sortObject(ps))\<close> fed to Node's \<open>crypto\<close>.
\<close>

record env =
  now :: date
  newBookingId :: oid
  newPaymentId :: oid
  newTransactionId :: string
  hashSecret :: "string option"
  signParams :: "string \<Rightarrow> params \<Rightarrow> string"

section \<open>The gateway service\<close>

text \<open>
  \<open>sortObject\<close> walks the keys with \<open>for (key in obj) if (obj.hasOwnProperty(key))\<close>.
  When the object has an own key \<open>hasOwnProperty\<close>, its value (a string of the request)
  is what gets called, and the call throws a \<open>TypeError\<close>.
\<close>

definition sortObjectThrows :: "params \<Rightarrow> bool" where
  "sortObjectThrows obj = (obj ''hasOwnProperty'' \<noteq> None)"

text \<open>
  \<open>verifyPaymentResult\<close> reads \<open>vnp_SecureHash\<close>, deletes it and \<open>vnp_SecureHashType\<close>
  from the caller's object, signs what is left and compares. It throws where
  \<open>sortObject\<close> throws and where \<open>crypto.createHmac\<close> is given no key; \<open>None\<close> is the
  throw. The stripped object is returned as well, because the handlers go on to use
  the object that was mutated.
\<close>

definition verifyPaymentResult :: "env \<Rightarrow> params \<Rightarrow> (bool \<times> params) option" where
  "verifyPaymentResult e vnpParams =
     (let secureHash = vnpParams ''vnp_SecureHash'';
          stripped = vnpParams(''vnp_SecureHash'' := None, ''vnp_SecureHashType'' := None)
      in if sortObjectThrows stripped then None
         else case hashSecret e of
                None \<Rightarrow> None
              | Some k \<Rightarrow> Some (secureHash = Some (signParams e k stripped), stripped))"

text \<open>The messages are Vietnamese in the source; they are written here without diacritics.\<close>

definition getResponseMessage :: "string option \<Rightarrow> string" where
  "getResponseMessage responseCode =
     (case map_of
        [(''00'', ''Giao dich thanh cong''),
         (''07'', ''Tru tien thanh cong. Giao dich bi nghi ngo (lien quan toi lua dao, giao dich bat thuong).''),
         (''09'', ''Giao dich khong thanh cong do: The/Tai khoan cua khach hang chua dang ky dich vu InternetBanking cua ngan hang.''),
         (''10'', ''Xac thuc thong tin the/tai khoan khong dung qua 3 lan''),
         (''11'', ''Da het han cho thanh toan. Xin vui long thuc hien lai giao dich.''),
         (''12'', ''Giao dich bi huy.''),
         (''24'', ''Giao dich khong thanh cong do: Khach hang huy giao dich''),
         (''51'', ''Giao dich khong thanh cong do: Tai khoan cua quy khach khong du so du de thuc hien giao dich.''),
         (''65'', ''Giao dich khong thanh cong do: Tai khoan cua Quy khach da vuot qua han muc giao dich trong ngay.''),
         (''75'', ''Ngan hang thanh toan dang bao tri.''),
         (''79'', ''Nhap sai mat khau thanh toan qua so lan quy dinh. Xin vui long thuc hien lai giao dich.''),
         (''99'', ''Cac loi khac (loi con lai, khong co trong danh sach ma loi da liet ke)'')]
        (case responseCode of None \<Rightarrow> ''undefined'' | Some c \<Rightarrow> c) of
      None \<Rightarrow> ''Loi khong xac dinh''
    | Some m \<Rightarrow> m)"

text \<open>Of the fields of the parsed result, those that the two callback handlers read.\<close>

record paymentResult =
  isValid :: bool
  txnRef :: "string option"
  responseCode :: "string option"
  transactionNo :: "string option"
  message :: string

definition parsePaymentResult :: "env \<Rightarrow> params \<Rightarrow> (paymentResult \<times> params) option" where
  "parsePaymentResult e vnpParams =
     (case verifyPaymentResult e vnpParams of
        None \<Rightarrow> None
      | Some (valid, stripped) \<Rightarrow>
          Some (\<lparr>isValid = valid,
                 txnRef = stripped ''vnp_TxnRef'',
                 responseCode = stripped ''vnp_ResponseCode'',
                 transactionNo = stripped ''vnp_TransactionNo'',
                 message = getResponseMessage (stripped ''vnp_ResponseCode'')\<rparr>,
                stripped))"

text \<open>The parameters carry a valid signature: the verification ran and accepted them.\<close>

definition signatureValid :: "env \<Rightarrow> params \<Rightarrow> bool" where
  "signatureValid e vnpParams =
     (case parsePaymentResult e vnpParams of
        None \<Rightarrow> False
      | Some (paymentResult, stripped) \<Rightarrow> isValid paymentResult)"

section \<open>The store\<close>

text \<open>
  The collections are lists in insertion order, which is the order \<open>findOne\<close> scans.
  \<open>save\<close> writes a document over the stored one with its \<open>_id\<close>, or appends a new one.
  The notification and e-mail collaborators and the user documents behind
  \<open>populate\<close> are outside this model. Of the schema validators, those are modelled
  that a request can trip: the minimum of a booking's duration and occupants, the
  minimum of a payment's amount and the enumeration of its payment method.
\<close>

record room =
  r_id :: oid
  r_landlord :: oid
  r_status :: string
  r_isAvailable :: bool
  r_title :: string
  r_priceMonthly :: number
  r_priceDeposit :: number
  r_priceUtilities :: "number option"

record store =
  rooms :: "room list"
  bookings :: "booking list"
  payments :: "payment list"

record user =
  u_id :: oid
  u_role :: role

datatype error =
    BadStatus
  | NotFound
  | Forbidden
  | RoomUnavailable
  | SelfBooking
  | Conflict
  | StateConflict
  | ServerError

definition httpStatus :: "error \<Rightarrow> nat" where
  "httpStatus e =
     (case e of NotFound \<Rightarrow> 404 | Forbidden \<Rightarrow> 403 | ServerError \<Rightarrow> 500 | _ \<Rightarrow> 400)"

definition saveDoc :: "('a \<Rightarrow> oid) \<Rightarrow> 'a \<Rightarrow> 'a list \<Rightarrow> 'a list" where
  "saveDoc key d ds =
     (if list_ex (\<lambda>x. key x = key d) ds
      then map (\<lambda>x. if key x = key d then d else x) ds
      else ds @ [d])"

definition saveBooking :: "booking \<Rightarrow> store \<Rightarrow> store" where
  "saveBooking b s = s\<lparr>bookings := saveDoc b_id b (bookings s)\<rparr>"

definition savePayment :: "payment \<Rightarrow> store \<Rightarrow> store" where
  "savePayment p s = s\<lparr>payments := saveDoc p_id p (payments s)\<rparr>"

definition findBookingById :: "store \<Rightarrow> oid \<Rightarrow> booking option" where
  "findBookingById s k = find (\<lambda>b. b_id b = k) (bookings s)"

definition findPaymentById :: "store \<Rightarrow> oid \<Rightarrow> payment option" where
  "findPaymentById s k = find (\<lambda>p. p_id p = k) (payments s)"

definition findRoomById :: "store \<Rightarrow> oid \<Rightarrow> room option" where
  "findRoomById s k = find (\<lambda>r. r_id r = k) (rooms s)"

text \<open>\<open>Payment.findOne({ booking })\<close>, \<open>Payment.findOne({ booking, type: 'deposit' })\<close> and
  \<open>Payment.findOne({ 'vnpay.txnRef': ref })\<close>.\<close>

definition findPaymentByBooking :: "store \<Rightarrow> oid \<Rightarrow> payment option" where
  "findPaymentByBooking s k = find (\<lambda>p. p_booking p = k) (payments s)"

definition findDepositPayment :: "store \<Rightarrow> oid \<Rightarrow> payment option" where
  "findDepositPayment s k = find (\<lambda>p. p_booking p = k \<and> p_type p = T_deposit) (payments s)"

definition findPaymentByTxnRef :: "store \<Rightarrow> string option \<Rightarrow> payment option" where
  "findPaymentByTxnRef s ref = find (\<lambda>p. p_vnpay p ''txnRef'' = ref) (payments s)"

text \<open>A new Payment document: the schema defaults and the \<open>pre('save')\<close> hook that
  generates the transaction identifier.\<close>

definition newPayment ::
  "env \<Rightarrow> oid \<Rightarrow> oid \<Rightarrow> oid \<Rightarrow> number \<Rightarrow> payment_status \<Rightarrow> payment_method \<Rightarrow> string \<Rightarrow> payment" where
  "newPayment e bookingId payer recipient amount st method description =
     \<lparr>p_id = newPaymentId e,
      p_booking = bookingId,
      p_payer = payer,
      p_recipient = recipient,
      p_type = T_deposit,
      p_amount = amount,
      p_status = st,
      p_paymentMethod = method,
      p_vnpay = [''locale'' \<mapsto> ''vn'', ''currCode'' \<mapsto> ''VND''],
      p_transactionId = Some (newTransactionId e),
      p_externalTransactionId = None,
      p_description = Some description,
      p_initiatedAt = Some (now e),
      p_processedAt = None,
      p_completedAt = None,
      p_failedAt = None,
      p_failureReason = None,
      p_refund = \<lparr>rf_amount = None, rf_reason = None, rf_processedAt = None,
                  rf_refundTransactionId = None, rf_status = Some R_pending\<rparr>,
      p_paymentSource = None\<rparr>"

definition paidDeposit :: "env \<Rightarrow> payment \<Rightarrow> payment_method \<Rightarrow> string option \<Rightarrow> depositStatus" where
  "paidDeposit e p method txn =
     \<lparr>dep_status = D_paid,
      dep_amount = Some (p_amount p),
      dep_paidAt = Some (now e),
      dep_paymentMethod = Some method,
      dep_transactionId = txn\<rparr>"

text \<open>What \<open>save()\<close> checks before it writes, as far as a request can trip it.\<close>

definition bookingValidates :: "booking \<Rightarrow> bool" where
  "bookingValidates b = (1 \<le> duration (b_details b) \<and> 1 \<le> numberOfOccupants (b_details b))"

definition paymentValidates :: "payment \<Rightarrow> bool" where
  "paymentValidates p = (0 \<le> p_amount p)"

definition paymentMethodOfString :: "string \<Rightarrow> payment_method option" where
  "paymentMethodOfString x =
     map_of [(''vnpay'', PM_vnpay), (''bank_transfer'', PM_bank_transfer), (''cash'', PM_cash),
             (''other'', PM_other), (''pending'', PM_pending)] x"

section \<open>Booking routes\<close>

subsection \<open>POST / : create a booking\<close>

datatype utilitiesReq = UtilNumber number | UtilObject number number number number

record pricingReq =
  pr_monthlyRent :: "number option"
  pr_deposit :: "number option"
  pr_utilities :: "utilitiesReq option"
  pr_totalAmount :: "number option"

text \<open>
  The request body after \<open>validateBookingCreation\<close>: the dates are parsed. That
  validator does not look at \<open>duration\<close>, which may be any number.
\<close>

record createReq =
  cr_roomId :: oid
  cr_checkInDate :: date
  cr_checkOutDate :: date
  cr_numberOfOccupants :: int
  cr_duration :: "number option"
  cr_pricing :: "pricingReq option"

definition authorize :: "role list \<Rightarrow> user \<Rightarrow> bool" where
  "authorize roles u = (u_role u \<in> set roles)"

text \<open>The query of \<open>Booking.findOne\<close> that looks for a booking in the way.\<close>

definition overlaps :: "oid \<Rightarrow> date \<Rightarrow> date \<Rightarrow> booking \<Rightarrow> bool" where
  "overlaps roomId checkIn checkOut b =
     (b_room b = roomId
      \<and> b_status b \<in> set [B_pending, B_confirmed, B_deposit_paid, B_active]
      \<and> getTime (checkInDate (b_details b)) \<le> getTime checkOut
      \<and> getTime (checkOutDate (b_details b)) \<ge> getTime checkIn)"

text \<open>\<open>Math.ceil((checkOut - checkIn) / (1000 * 60 * 60 * 24 * 30))\<close>.\<close>

definition calculatedDuration :: "date \<Rightarrow> date \<Rightarrow> int" where
  "calculatedDuration checkIn checkOut =
     - ((- (getTime checkOut - getTime checkIn)) div (1000 * 60 * 60 * 24 * 30))"

definition requestedUtilities :: "pricingReq option \<Rightarrow> room \<Rightarrow> number" where
  "requestedUtilities pr rm =
     (case (case pr of None \<Rightarrow> None | Some q \<Rightarrow> pr_utilities q) of
        Some (UtilObject electricity water internet other) \<Rightarrow>
          electricity + water + internet + other
      | Some (UtilNumber n) \<Rightarrow> orNumber (Some n) (orNumber (r_priceUtilities rm) 0)
      | None \<Rightarrow> orNumber (r_priceUtilities rm) 0)"

definition contractNumberFor :: "nat \<Rightarrow> string" where
  "contractNumberFor count = ''HD'' @ padStart 6 (CHR ''0'') (str_of_nat (count + 1))"

text \<open>
  The first \<open>booking.save()\<close> rejects a booking that does not validate, and the handler
  answers 500. The deposit payment is created inside a \<open>try\<close> with an empty \<open>catch\<close>:
  when its \<open>save()\<close> rejects, the booking stays without a payment.
\<close>

definition createBooking :: "env \<Rightarrow> user \<Rightarrow> createReq \<Rightarrow> store \<Rightarrow> (error + booking) \<times> store" where
  "createBooking e u req s =
     (if \<not> authorize [Tenant] u then (Inl Forbidden, s)
      else case findRoomById s (cr_roomId req) of
        None \<Rightarrow> (Inl NotFound, s)
      | Some rm \<Rightarrow>
          if r_status rm \<noteq> ''active'' \<or> \<not> r_isAvailable rm then (Inl RoomUnavailable, s)
          else if r_landlord rm = u_id u then (Inl SelfBooking, s)
          else (case find (overlaps (cr_roomId req) (cr_checkInDate req) (cr_checkOutDate req))
                       (bookings s) of
            Some existingBooking \<Rightarrow> (Inl Conflict, s)
          | None \<Rightarrow>
              (let checkIn = cr_checkInDate req;
                   checkOut = cr_checkOutDate req;
                   pr = cr_pricing req;
                   bookingData =
                     \<lparr>b_id = newBookingId e,
                      b_room = cr_roomId req,
                      b_tenant = u_id u,
                      b_landlord = r_landlord rm,
                      b_details =
                        \<lparr>checkInDate = checkIn,
                         checkOutDate = checkOut,
                         duration =
                           orNumber (cr_duration req)
                             (of_int (calculatedDuration checkIn checkOut)),
                         numberOfOccupants = cr_numberOfOccupants req\<rparr>,
                      b_pricing =
                        \<lparr>monthlyRent =
                           orNumber (case pr of None \<Rightarrow> None | Some q \<Rightarrow> pr_monthlyRent q)
                             (r_priceMonthly rm),
                         deposit =
                           orNumber (case pr of None \<Rightarrow> None | Some q \<Rightarrow> pr_deposit q)
                             (r_priceDeposit rm),
                         utilities = requestedUtilities pr rm,
                         totalAmount =
                           orNumber (case pr of None \<Rightarrow> None | Some q \<Rightarrow> pr_totalAmount q) 0\<rparr>,
                      b_status = B_pending,
                      b_deposit =
                        \<lparr>dep_status = D_pending, dep_amount = None, dep_paidAt = None,
                         dep_paymentMethod = None, dep_transactionId = None\<rparr>,
                      b_monthly = [],
                      b_contractNumber = Some (contractNumberFor (length (bookings s))),
                      b_cancellation = None\<rparr>;
                   b1 = calculateTotalAmount bookingData
               in if \<not> bookingValidates b1 then (Inl ServerError, s)
                  else
                    (let s1 = saveBooking b1 s;
                         b2 = generateMonthlyPayments b1;
                         s2 = saveBooking b2 s1;
                         pay = newPayment e (b_id b2) (u_id u) (r_landlord rm)
                                 (deposit (b_pricing b2)) P_pending PM_pending
                                 (''Dat coc phong: '' @ r_title rm);
                         s3 = (if paymentValidates pay then savePayment pay s2 else s2)
                     in (Inr b2, s3)))))"

subsection \<open>PUT /:id/confirm : the landlord confirms a booking\<close>

definition confirmBooking :: "env \<Rightarrow> user \<Rightarrow> oid \<Rightarrow> store \<Rightarrow> (error + booking) \<times> store" where
  "confirmBooking e u bid s =
     (if \<not> authorize [Landlord] u then (Inl Forbidden, s)
      else case findBookingById s bid of
        None \<Rightarrow> (Inl NotFound, s)
      | Some b \<Rightarrow>
          if b_landlord b \<noteq> u_id u then (Inl Forbidden, s)
          else if b_status b \<noteq> B_pending then (Inl StateConflict, s)
          else
            (let b' = b\<lparr>b_status := B_confirmed\<rparr>;
                 s1 = saveBooking b' s;
                 s2 = (case findPaymentByBooking s1 (b_id b') of
                         None \<Rightarrow> s1
                       | Some p \<Rightarrow>
                           if p_status p = P_pending
                           then savePayment
                                  (p\<lparr>p_status := P_completed,
                                     p_completedAt := Some (now e),
                                     p_paymentMethod := PM_bank_transfer\<rparr>) s1
                           else s1)
             in (Inr b', s2)))"

subsection \<open>PUT /:id/status : the general status update\<close>

text \<open>
  \<open>sr_status\<close> is \<open>None\<close> when the body has no status or one that is not a booking
  status at all. The three places a transaction reference may come from are
  \<open>txnRef\<close>, \<open>transactionId\<close> and \<open>vnpay.txnRef\<close> of the body.
\<close>

record statusReq =
  sr_status :: "booking_status option"
  sr_reason :: "string option"
  sr_paymentMethod :: "string option"
  sr_paymentDescription :: "string option"
  sr_paymentSource :: "string option"
  sr_txnRef :: "string option"
  sr_transactionId :: "string option"
  sr_vnpayTxnRef :: "string option"

text \<open>\<open>a || b\<close> on strings: an absent or empty string is falsy.\<close>

definition orString :: "string option \<Rightarrow> string option \<Rightarrow> string option" where
  "orString a b = (case a of None \<Rightarrow> b | Some v \<Rightarrow> if v = [] then b else Some v)"

definition orDefault :: "string option \<Rightarrow> string \<Rightarrow> string" where
  "orDefault a d = (case a of None \<Rightarrow> d | Some v \<Rightarrow> if v = [] then d else v)"

definition validStatuses :: "booking_status list" where
  "validStatuses = [B_pending, B_confirmed, B_deposit_paid, B_active, B_completed, B_cancelled]"

definition noReason :: string where
  "noReason = ''Khong co ly do''"

text \<open>
  The block that runs when the target is \<open>deposit_paid\<close> and the booking was not there
  yet. It sits in a \<open>try\<close> whose \<open>catch\<close> is empty. It finds or creates the deposit
  Payment, completes it (\<open>completedDepositPayment\<close> is the document handed to
  \<open>payment.save()\<close>) and then records the payment on the booking. \<open>None\<close> is a throw on
  the way, after which nothing of the block has taken effect:
  \<^item> the default description reads \<open>booking.room.title\<close>, and \<open>booking.room\<close> is \<open>null\<close>
    when the room document is gone (a room with nothing but pending bookings can be
    deleted); the default is only evaluated when the body gives no description;
  \<^item> \<open>payment.save()\<close> rejects a payment method outside the schema's enumeration and
    an amount below zero.
\<close>

definition requestedMethod :: "statusReq \<Rightarrow> string" where
  "requestedMethod req = orDefault (sr_paymentMethod req) ''bank_transfer''"

definition requestedDescription :: "statusReq \<Rightarrow> booking \<Rightarrow> store \<Rightarrow> string option" where
  "requestedDescription req b s =
     (case orString (sr_paymentDescription req) None of
        Some d \<Rightarrow> Some d
      | None \<Rightarrow>
          (case findRoomById s (b_room b) of
             None \<Rightarrow> None
           | Some rm \<Rightarrow> Some (''Dat coc phong: '' @ r_title rm @ '' - Xac nhan boi chu tro'')))"

definition requestedTxnRef :: "statusReq \<Rightarrow> string option" where
  "requestedTxnRef req =
     orString (sr_txnRef req) (orString (sr_transactionId req) (sr_vnpayTxnRef req))"

definition completedDepositPayment ::
  "env \<Rightarrow> statusReq \<Rightarrow> payment_method \<Rightarrow> string \<Rightarrow> booking \<Rightarrow> store \<Rightarrow> payment" where
  "completedDepositPayment e req paymentMethod paymentDescription b s =
     (let paymentSource = sr_paymentSource req;
          txn = requestedTxnRef req;
          p1 = (case findDepositPayment s (b_id b) of
                  None \<Rightarrow>
                    (newPayment e (b_id b) (b_tenant b) (b_landlord b) (deposit (b_pricing b))
                       P_completed paymentMethod paymentDescription)
                      \<lparr>p_processedAt := Some (now e), p_completedAt := Some (now e)\<rparr>
                | Some p \<Rightarrow>
                    p\<lparr>p_status := P_completed,
                      p_paymentMethod := paymentMethod,
                      p_processedAt := Some (now e),
                      p_completedAt := Some (now e),
                      p_description := orString (p_description p) (Some paymentDescription)\<rparr>);
          p2 = (case txn of
                  None \<Rightarrow> p1
                | Some t \<Rightarrow>
                    p1\<lparr>p_vnpay :=
                         (let v = (p_vnpay p1)(''txnRef'' \<mapsto> t)
                          in if orString (v ''orderInfo'') None = None
                             then v(''orderInfo'' \<mapsto> paymentDescription) else v)\<rparr>)
      in case orString paymentSource None of
           None \<Rightarrow> p2
         | Some src \<Rightarrow> p2\<lparr>p_paymentSource := Some src\<rparr>)"

definition markDepositPaid ::
  "env \<Rightarrow> statusReq \<Rightarrow> booking \<Rightarrow> store \<Rightarrow> (booking \<times> store) option" where
  "markDepositPaid e req b s =
     (case requestedDescription req b s of
        None \<Rightarrow> None
      | Some paymentDescription \<Rightarrow>
          (case paymentMethodOfString (requestedMethod req) of
             None \<Rightarrow> None
           | Some paymentMethod \<Rightarrow>
               (let payment =
                      completedDepositPayment e req paymentMethod paymentDescription b s
                in if \<not> paymentValidates payment then None
                   else Some
                     (b\<lparr>b_deposit :=
                          paidDeposit e payment paymentMethod
                            (orString (requestedTxnRef req)
                               (orString (p_transactionId payment) (Some (p_id payment))))\<rparr>,
                      savePayment payment s))))"

text \<open>
  The handler. Whatever became of the block above, \<open>booking.save()\<close> follows it and
  stores the new status.
\<close>

definition updateStatus :: "env \<Rightarrow> user \<Rightarrow> oid \<Rightarrow> statusReq \<Rightarrow> store \<Rightarrow> (error + booking) \<times> store" where
  "updateStatus e u bid req s =
     (case sr_status req of
        None \<Rightarrow> (Inl BadStatus, s)
      | Some st \<Rightarrow>
          if st \<notin> set validStatuses then (Inl BadStatus, s)
          else (case findBookingById s bid of
            None \<Rightarrow> (Inl NotFound, s)
          | Some b \<Rightarrow>
              (let isAdmin = (u_role u = Admin);
                   isLandlord = (u_role u = Landlord \<and> b_landlord b = u_id u);
                   isTenant = (u_role u = Tenant \<and> b_tenant b = u_id u)
               in if \<not> isAdmin \<and> \<not> isLandlord \<and> \<not> isTenant then (Inl Forbidden, s)
                  else if st = B_confirmed \<and> b_status b \<noteq> B_pending then (Inl StateConflict, s)
                  else if st = B_cancelled \<and> \<not> canBeCancelled b then (Inl StateConflict, s)
                  else
                    (let oldStatus = b_status b;
                         b1 = b\<lparr>b_status := st\<rparr>;
                         b2 = (if st = B_cancelled
                               then b1\<lparr>b_cancellation :=
                                         Some \<lparr>cancelledBy =
                                                 (if isAdmin then Admin
                                                  else if isTenant then Tenant else Landlord),
                                               cancelledAt = now e,
                                               reason = orDefault (sr_reason req) noReason\<rparr>\<rparr>
                               else b1);
                         (b3, s1) = (if st = B_deposit_paid \<and> oldStatus \<noteq> B_deposit_paid
                                     then (case markDepositPaid e req b2 s of
                                             None \<Rightarrow> (b2, s)
                                           | Some result \<Rightarrow> result)
                                     else (b2, s));
                         s2 = saveBooking b3 s1
                     in (Inr b3, s2)))))"

subsection \<open>PUT /:id/cancel : the cancel endpoint, behind \<open>checkBookingAccess\<close>\<close>

definition checkBookingAccess :: "user \<Rightarrow> oid \<Rightarrow> store \<Rightarrow> error option" where
  "checkBookingAccess u bid s =
     (if u_role u = Admin then None
      else case findBookingById s bid of
        None \<Rightarrow> Some NotFound
      | Some b \<Rightarrow>
          if b_tenant b \<noteq> u_id u \<and> b_landlord b \<noteq> u_id u then Some Forbidden else None)"

definition bookingCancelled :: string where
  "bookingCancelled = ''Dat phong bi huy''"

definition cancelBooking ::
  "env \<Rightarrow> user \<Rightarrow> oid \<Rightarrow> string option \<Rightarrow> store \<Rightarrow> (error + booking) \<times> store" where
  "cancelBooking e u bid rsn s =
     (case checkBookingAccess u bid s of
        Some err \<Rightarrow> (Inl err, s)
      | None \<Rightarrow>
          (case findBookingById s bid of
             None \<Rightarrow> (Inl NotFound, s)
           | Some b \<Rightarrow>
               if \<not> canBeCancelled b then (Inl StateConflict, s)
               else if u_role u \<noteq> Admin \<and> b_tenant b \<noteq> u_id u \<and> b_landlord b \<noteq> u_id u
               then (Inl Forbidden, s)
               else
                 (let who = (if u_role u = Admin then Admin
                             else if b_tenant b = u_id u then Tenant else Landlord);
                      b' = b\<lparr>b_status := B_cancelled,
                             b_cancellation :=
                               Some \<lparr>cancelledBy = who,
                                     cancelledAt = now e,
                                     reason = orDefault rsn noReason\<rparr>\<rparr>;
                      s1 = saveBooking b' s;
                      s2 = (case findPaymentByBooking s1 (b_id b') of
                              None \<Rightarrow> s1
                            | Some p \<Rightarrow>
                                if p_status p = P_pending
                                then savePayment
                                       (p\<lparr>p_status := P_failed,
                                          p_failedAt := Some (now e),
                                          p_failureReason := Some bookingCancelled\<rparr>) s1
                                else s1)
                  in (Inr b', s2))))"

section \<open>Payment routes\<close>

subsection \<open>GET /vnpay-return : the handler for the browser coming back from the gateway\<close>

datatype redirect = FailedPage string | SuccessPage "string option" oid

text \<open>
  This is the function registered for \<open>/vnpay-return\<close>. A throw anywhere in it lands
  in its \<open>catch\<close>, which redirects to the failure page: so does a throw of the
  verification, and so does \<open>payment.booking._id\<close> when the populated booking is \<open>null\<close>
  because the booking is gone, before anything is saved.
\<close>

definition vnpayReturnHandler :: "env \<Rightarrow> params \<Rightarrow> store \<Rightarrow> redirect \<times> store" where
  "vnpayReturnHandler e vnpParams s =
     (case parsePaymentResult e vnpParams of
        None \<Rightarrow> (FailedPage ''Payment processing error'', s)
      | Some (paymentResult, stripped) \<Rightarrow>
         (if \<not> isValid paymentResult then (FailedPage ''Invalid signature'', s)
          else case findPaymentByTxnRef s (txnRef paymentResult) of
           None \<Rightarrow> (FailedPage ''Payment not found'', s)
         | Some payment \<Rightarrow>
             if responseCode paymentResult = Some ''00''
             then
               (let p' = payment\<lparr>p_status := P_completed,
                                 p_processedAt := Some (now e),
                                 p_completedAt := Some (now e),
                                 p_externalTransactionId := transactionNo paymentResult,
                                 p_vnpay := p_vnpay payment ++ stripped\<rparr>
                in case findBookingById s (p_booking payment) of
                     None \<Rightarrow> (FailedPage ''Payment processing error'', s)
                   | Some b \<Rightarrow>
                       (let s1 = (if p_type p' = T_deposit
                                  then saveBooking
                                         (b\<lparr>b_status := B_deposit_paid,
                                            b_deposit :=
                                              paidDeposit e p' PM_vnpay (p_transactionId p')\<rparr>) s
                                  else s)
                        in (SuccessPage (txnRef paymentResult) (p_id p'), savePayment p' s1)))
             else
               (FailedPage (message paymentResult),
                savePayment
                  (payment\<lparr>p_status := P_failed,
                           p_failedAt := Some (now e),
                           p_failureReason := Some (message paymentResult)\<rparr>) s)))"

subsection \<open>GET /:id, and what becomes of a GET of /vnpay-return\<close>

text \<open>
  The router tries its routes in the order of their registration, and a route that
  answers without calling \<open>next()\<close> ends the request. \<open>router.get('/:id', authenticate,
  validateObjectId('id'), ...)\<close> is registered before \<open>router.get('/vnpay-return', ...)\<close>
  and matches every path of one segment, \<open>/vnpay-return\<close> included, with
  \<open>id = 'vnpay-return'\<close>. The result of a route is \<open>None\<close> when it passes the request
  on. The request is authenticated (\<open>Some\<close> of the user) or is not (no token, a bad
  token, an inactive user).
\<close>

datatype reply = JsonReply nat | RedirectReply redirect

definition isMongoId :: "string \<Rightarrow> bool" where
  "isMongoId x = (length x = 24 \<and> list_all (\<lambda>c. c \<in> set ''0123456789abcdefABCDEF'') x)"

definition getPaymentRoute :: "user option \<Rightarrow> string \<Rightarrow> store \<Rightarrow> (reply \<times> store) option" where
  "getPaymentRoute auth idParam s =
     (case auth of
        None \<Rightarrow> Some (JsonReply 401, s)
      | Some u \<Rightarrow>
          if \<not> isMongoId idParam then Some (JsonReply 400, s)
          else (case findPaymentById s idParam of
                  None \<Rightarrow> Some (JsonReply 404, s)
                | Some payment \<Rightarrow>
                    if u_role u \<noteq> Admin \<and> p_payer payment \<noteq> u_id u
                       \<and> p_recipient payment \<noteq> u_id u
                    then Some (JsonReply 403, s)
                    else Some (JsonReply 200, s)))"

definition getVnpayReturn :: "env \<Rightarrow> user option \<Rightarrow> params \<Rightarrow> store \<Rightarrow> reply \<times> store" where
  "getVnpayReturn e auth vnpParams s =
     (case getPaymentRoute auth ''vnpay-return'' s of
        Some answer \<Rightarrow> answer
      | None \<Rightarrow>
          (RedirectReply (fst (vnpayReturnHandler e vnpParams s)),
           snd (vnpayReturnHandler e vnpParams s)))"

subsection \<open>POST /vnpay/ipn : the gateway's server-to-server notification\<close>

text \<open>
  The answer is the HTTP status and the \<open>RspCode\<close> of the JSON body. A throw of the
  verification lands in the handler's \<open>catch\<close>, which answers 500 with \<open>RspCode 99\<close>.
\<close>

datatype ack = Ack nat string

definition vnpayIpn :: "env \<Rightarrow> params \<Rightarrow> store \<Rightarrow> ack \<times> store" where
  "vnpayIpn e vnpParams s =
     (case parsePaymentResult e vnpParams of
        None \<Rightarrow> (Ack 500 ''99'', s)
      | Some (paymentResult, stripped) \<Rightarrow>
         (if \<not> isValid paymentResult then (Ack 400 ''97'', s)
          else case findPaymentByTxnRef s (txnRef paymentResult) of
           None \<Rightarrow> (Ack 400 ''01'', s)
         | Some payment \<Rightarrow>
             (let p0 = payment\<lparr>p_vnpay := p_vnpay payment ++ stripped\<rparr>
              in if responseCode paymentResult = Some ''00''
                 then
                   (if p_status p0 \<noteq> P_completed
                    then
                      (let p1 = p0\<lparr>p_status := P_completed,
                                   p_processedAt := Some (now e),
                                   p_completedAt := Some (now e),
                                   p_externalTransactionId := transactionNo paymentResult\<rparr>;
                           s1 = (if p_type p1 = T_deposit
                                 then (case findBookingById s (p_booking p1) of
                                         None \<Rightarrow> s
                                       | Some b \<Rightarrow>
                                           if b_status b = B_confirmed
                                           then saveBooking
                                                  (b\<lparr>b_status := B_deposit_paid,
                                                     b_deposit :=
                                                       paidDeposit e p1 PM_vnpay
                                                         (p_transactionId p1)\<rparr>) s
                                           else s)
                                 else s)
                       in (Ack 200 ''00'', savePayment p1 s1))
                    else (Ack 200 ''00'', savePayment p0 s))
                 else
                   (Ack 200 ''00'',
                    savePayment
                      (p0\<lparr>p_status := P_failed,
                          p_failedAt := Some (now e),
                          p_failureReason := Some (message paymentResult)\<rparr>) s))))"

subsection \<open>PUT /:id/confirm : a landlord or an admin confirms a payment by hand\<close>

definition confirmPayment :: "env \<Rightarrow> user \<Rightarrow> oid \<Rightarrow> store \<Rightarrow> (error + payment) \<times> store" where
  "confirmPayment e u pid s =
     (if \<not> authorize [Landlord, Admin] u then (Inl Forbidden, s)
      else case findPaymentById s pid of
        None \<Rightarrow> (Inl NotFound, s)
      | Some payment \<Rightarrow>
          if u_role u \<noteq> Admin \<and> p_recipient payment \<noteq> u_id u then (Inl Forbidden, s)
          else if p_status payment \<noteq> P_pending then (Inl StateConflict, s)
          else
            (let p' = payment\<lparr>p_status := P_completed,
                              p_processedAt := Some (now e),
                              p_completedAt := Some (now e)\<rparr>
             in case findBookingById s (p_booking payment) of
                  None \<Rightarrow> (Inl ServerError, s)
                | Some b \<Rightarrow>
                    (let s1 = (if p_type p' = T_deposit
                               then saveBooking
                                      (b\<lparr>b_status := B_deposit_paid,
                                         b_deposit :=
                                           paidDeposit e p' PM_bank_transfer
                                             (p_transactionId p')\<rparr>) s
                               else s)
                     in (Inr p', savePayment p' s1))))"

subsection \<open>The operations that change a booking or a payment after its creation\<close>

datatype operation =
    LandlordConfirmation user oid
  | StatusUpdate user oid statusReq
  | GatewayReturn "user option" params
  | GatewayIpn params
  | ManualPaymentConfirmation user oid

fun runOperation :: "env \<Rightarrow> operation \<Rightarrow> store \<Rightarrow> store" where
  "runOperation e (LandlordConfirmation u bid) s = snd (confirmBooking e u bid s)"
| "runOperation e (StatusUpdate u bid req) s = snd (updateStatus e u bid req s)"
| "runOperation e (GatewayReturn auth ps) s = snd (getVnpayReturn e auth ps s)"
| "runOperation e (GatewayIpn ps) s = snd (vnpayIpn e ps s)"
| "runOperation e (ManualPaymentConfirmation u pid) s = snd (confirmPayment e u pid s)"

text \<open>
  The one case in which an operation stores \<open>deposit_paid\<close> without having written the
  payment: a status update to \<open>deposit_paid\<close> whose payment block throws into the empty
  \<open>catch\<close>.
\<close>

definition swallowsPaymentError :: "env \<Rightarrow> operation \<Rightarrow> store \<Rightarrow> bool" where
  "swallowsPaymentError e op s =
     (case op of
        StatusUpdate u bid req \<Rightarrow>
          sr_status req = Some B_deposit_paid
          \<and> (case findBookingById s bid of
                None \<Rightarrow> False
              | Some b \<Rightarrow>
                  b_status b \<noteq> B_deposit_paid
                  \<and> Option.is_none (markDepositPaid e req (b\<lparr>b_status := B_deposit_paid\<rparr>) s))
      | _ \<Rightarrow> False)"

section \<open>Concrete inputs\<close>

text \<open>
  One room, one booking of it and the deposit payment of that booking, in the states
  the examples below need. The booking is the example of the specification: rent
  3,000,000, utilities 200,000, deposit 3,000,000, three months from 1 October 2025.
\<close>

definition ex_day :: "int \<Rightarrow> nat \<Rightarrow> nat \<Rightarrow> date" where
  "ex_day y m d = \<lparr>fullYear = y, monthIndex = m, dayOfMonth = d, msInDay = 0\<rparr>"

definition ex_sign :: "string \<Rightarrow> params \<Rightarrow> string" where
  "ex_sign k ps = ''5f1c''"

definition ex_env :: env where
  "ex_env =
     \<lparr>now = ex_day 2025 9 5,
      newBookingId = ''b2'',
      newPaymentId = ''p2'',
      newTransactionId = ''TXN00000002AAAAAA'',
      hashSecret = Some ''secret'',
      signParams = ex_sign\<rparr>"

definition ex_room :: room where
  "ex_room =
     \<lparr>r_id = ''r1'', r_landlord = ''u2'', r_status = ''active'', r_isAvailable = True,
      r_title = ''Phong 1'', r_priceMonthly = 3000000, r_priceDeposit = 3000000,
      r_priceUtilities = Some 200000\<rparr>"

definition ex_booking :: "booking_status \<Rightarrow> booking" where
  "ex_booking st =
     \<lparr>b_id = ''b1'', b_room = ''r1'', b_tenant = ''u1'', b_landlord = ''u2'',
      b_details = \<lparr>checkInDate = ex_day 2025 9 1, checkOutDate = ex_day 2026 0 1,
                   duration = 3, numberOfOccupants = 2\<rparr>,
      b_pricing = \<lparr>monthlyRent = 3000000, deposit = 3000000, utilities = 200000,
                   totalAmount = 0\<rparr>,
      b_status = st,
      b_deposit =
        (if st \<in> set [B_deposit_paid, B_active, B_completed]
         then \<lparr>dep_status = D_paid, dep_amount = Some 3000000,
               dep_paidAt = Some (ex_day 2025 9 3), dep_paymentMethod = Some PM_vnpay,
               dep_transactionId = Some ''TXN00000001AAAAAA''\<rparr>
         else \<lparr>dep_status = D_pending, dep_amount = None, dep_paidAt = None,
               dep_paymentMethod = None, dep_transactionId = None\<rparr>),
      b_monthly = [],
      b_contractNumber = Some ''HD000001'',
      b_cancellation = None\<rparr>"

definition ex_payment :: "payment_status \<Rightarrow> payment" where
  "ex_payment st =
     \<lparr>p_id = ''p1'', p_booking = ''b1'', p_payer = ''u1'', p_recipient = ''u2'',
      p_type = T_deposit, p_amount = 3000000, p_status = st,
      p_paymentMethod = PM_vnpay,
      p_vnpay = [''txnRef'' \<mapsto> ''T1''],
      p_transactionId = Some ''TXN00000001AAAAAA'',
      p_externalTransactionId = None,
      p_description = None,
      p_initiatedAt = Some (ex_day 2025 9 2),
      p_processedAt = (if st = P_completed then Some (ex_day 2025 9 3) else None),
      p_completedAt = (if st = P_completed then Some (ex_day 2025 9 3) else None),
      p_failedAt = None,
      p_failureReason = None,
      p_refund = \<lparr>rf_amount = None, rf_reason = None, rf_processedAt = None,
                  rf_refundTransactionId = None, rf_status = Some R_pending\<rparr>,
      p_paymentSource = None\<rparr>"

definition ex_store :: "booking_status \<Rightarrow> payment_status \<Rightarrow> store" where
  "ex_store bs ps = \<lparr>rooms = [ex_room], bookings = [ex_booking bs], payments = [ex_payment ps]\<rparr>"

definition ex_params :: "string \<Rightarrow> string \<Rightarrow> params" where
  "ex_params code hash =
     [''vnp_TxnRef'' \<mapsto> ''T1'', ''vnp_ResponseCode'' \<mapsto> code,
      ''vnp_TransactionNo'' \<mapsto> ''14000001'', ''vnp_SecureHash'' \<mapsto> hash]"

definition ex_user :: "oid \<Rightarrow> role \<Rightarrow> user" where
  "ex_user k r = \<lparr>u_id = k, u_role = r\<rparr>"

definition ex_createReq :: createReq where
  "ex_createReq =
     \<lparr>cr_roomId = ''r1'', cr_checkInDate = ex_day 2025 11 1, cr_checkOutDate = ex_day 2026 2 1,
      cr_numberOfOccupants = 1, cr_duration = None, cr_pricing = None\<rparr>"

definition ex_stay :: "date \<Rightarrow> number \<Rightarrow> booking" where
  "ex_stay checkIn months =
     (ex_booking B_pending)
       \<lparr>b_details := \<lparr>checkInDate = checkIn, checkOutDate = ex_day 2026 11 31,
                       duration = months, numberOfOccupants = 2\<rparr>\<rparr>"

definition ex_statusReq :: "booking_status \<Rightarrow> statusReq" where
  "ex_statusReq st =
     \<lparr>sr_status = Some st, sr_reason = None, sr_paymentMethod = None,
      sr_paymentDescription = None, sr_paymentSource = None, sr_txnRef = None,
      sr_transactionId = None, sr_vnpayTxnRef = None\<rparr>"

section \<open>Facts about the store\<close>

lemma find_replace_other:
  "key d \<noteq> k \<Longrightarrow>
   find (\<lambda>x. key x = k) (map (\<lambda>x. if key x = key d then d else x) ds) =
   find (\<lambda>x. key x = k) ds"
  by (induction ds) auto

lemma find_replace_same:
  "list_ex (\<lambda>x. key x = key d) ds \<Longrightarrow>
   find (\<lambda>x. key x = key d) (map (\<lambda>x. if key x = key d then d else x) ds) = Some d"
  by (induction ds) auto

lemma find_snoc:
  "find P (xs @ [y]) = (case find P xs of None \<Rightarrow> (if P y then Some y else None) | Some x \<Rightarrow> Some x)"
  by (induction xs) auto

lemma find_saveDoc:
  "find (\<lambda>x. key x = k) (saveDoc key d ds) =
     (if key d = k then Some d else find (\<lambda>x. key x = k) ds)"
proof (cases "list_ex (\<lambda>x. key x = key d) ds")
  case True
  then show ?thesis
    using find_replace_other [of key d k ds] find_replace_same [of key d ds]
    by (auto simp: saveDoc_def)
next
  case False
  then have "find (\<lambda>x. key x = key d) ds = None"
    by (auto simp: find_None_iff list_ex_iff)
  with False show ?thesis by (auto simp: saveDoc_def find_snoc split: option.splits)
qed

lemma saveDoc_idem: "saveDoc key d (saveDoc key d ds) = saveDoc key d ds"
proof (cases "list_ex (\<lambda>x. key x = key d) ds")
  case True
  define f where "f = (\<lambda>x. if key x = key d then d else x)"
  have ff: "map f (map f ds) = map f ds"
    by (simp add: f_def)
  from True obtain x where "x \<in> set ds" "key x = key d"
    by (auto simp: list_ex_iff)
  then have "f x \<in> set (map f ds)" "key (f x) = key d"
    by (simp_all add: f_def)
  then have ex: "list_ex (\<lambda>x. key x = key d) (map f ds)"
    unfolding list_ex_iff by blast
  have "saveDoc key d ds = map f ds"
    using True by (simp add: saveDoc_def f_def)
  moreover have "saveDoc key d (map f ds) = map f (map f ds)"
    using ex by (simp add: saveDoc_def f_def)
  ultimately show ?thesis using ff by simp
next
  case False
  then have no: "\<forall>x\<in>set ds. key x \<noteq> key d"
    by (simp add: list_ex_iff)
  have "saveDoc key d ds = ds @ [d]"
    using False by (simp add: saveDoc_def)
  moreover have "list_ex (\<lambda>x. key x = key d) (ds @ [d])"
    by (simp add: list_ex_iff)
  then have "saveDoc key d (ds @ [d]) = map (\<lambda>x. if key x = key d then d else x) (ds @ [d])"
    by (simp add: saveDoc_def)
  moreover have "map (\<lambda>x. if key x = key d then d else x) ds = ds"
    using no by (simp add: map_idI)
  ultimately show ?thesis by simp
qed


lemma find_replace_hit:
  "find P ds = Some p \<Longrightarrow> key d = key p \<Longrightarrow> P d \<Longrightarrow>
   find P (map (\<lambda>x. if key x = key d then d else x) ds) = Some d"
proof (induction ds)
  case Nil
  then show ?case by simp
next
  case (Cons a ds)
  show ?case
  proof (cases "P a")
    case True
    with Cons.prems show ?thesis by simp
  next
    case False
    with Cons show ?thesis by simp
  qed
qed

lemma find_saveDoc_same:
  assumes "find P ds = Some p" and "key d = key p" and "P d"
  shows "find P (saveDoc key d ds) = Some d"
proof -
  from assms(1) have "p \<in> set ds" unfolding find_Some_iff by (metis nth_mem)
  with assms(2) have ex: "list_ex (\<lambda>x. key x = key d) ds" by (auto simp: list_ex_iff)
  show ?thesis using ex find_replace_hit [OF assms] by (simp add: saveDoc_def)
qed



lemma findBookingById_savePayment [simp]:
  "findBookingById (savePayment p s) k = findBookingById s k"
  by (simp add: findBookingById_def savePayment_def)

lemma findPaymentById_savePayment:
  "findPaymentById (savePayment p s) k = (if p_id p = k then Some p else findPaymentById s k)"
  by (simp add: findPaymentById_def savePayment_def find_saveDoc)

lemma payments_saveBooking [simp]: "payments (saveBooking b s) = payments s"
  by (simp add: saveBooking_def)

lemma bookings_savePayment [simp]: "bookings (savePayment p s) = bookings s"
  by (simp add: savePayment_def)

lemma signatureValid_iff:
  "signatureValid e ps =
     (ps ''hasOwnProperty'' = None
      \<and> (case hashSecret e of
            None \<Rightarrow> False
          | Some k \<Rightarrow>
              ps ''vnp_SecureHash'' =
                Some (signParams e k
                        (ps(''vnp_SecureHash'' := None, ''vnp_SecureHashType'' := None)))))"
  by (simp add: signatureValid_def parsePaymentResult_def verifyPaymentResult_def
                sortObjectThrows_def Let_def split: option.splits)

lemma signatureValid_parse:
  "signatureValid e ps \<Longrightarrow>
   parsePaymentResult e ps =
     Some (\<lparr>isValid = True,
            txnRef = ps ''vnp_TxnRef'',
            responseCode = ps ''vnp_ResponseCode'',
            transactionNo = ps ''vnp_TransactionNo'',
            message = getResponseMessage (ps ''vnp_ResponseCode'')\<rparr>,
           ps(''vnp_SecureHash'' := None, ''vnp_SecureHashType'' := None))"
  by (auto simp: signatureValid_def parsePaymentResult_def verifyPaymentResult_def
                 sortObjectThrows_def Let_def split: option.splits if_splits)

lemma map_add_twice [simp]: "(m ++ n) ++ n = m ++ n"
  by (rule ext) (simp add: map_add_def split: option.splits)

lemma return_route_answers_first:
  "getVnpayReturn e auth ps s = (JsonReply 401, s) \<or> getVnpayReturn e auth ps s = (JsonReply 400, s)"
  by (simp add: getVnpayReturn_def getPaymentRoute_def isMongoId_def split: option.splits)

section \<open>Booking amounts and the monthly schedule\<close>

lemma monthlyLoop_eq:
  "monthlyLoop b i acc = acc @ map (monthlyPaymentAt b) [i ..< nat \<lceil>duration (b_details b)\<rceil>]"
proof (induction b i acc rule: monthlyLoop.induct)
  case (1 b i payments)
  show ?case
  proof (cases "of_nat i < duration (b_details b)")
    case True
    then have "int i < \<lceil>duration (b_details b)\<rceil>"
      by (simp add: less_ceiling_iff)
    then have "i < nat \<lceil>duration (b_details b)\<rceil>" by simp
    then have "[i ..< nat \<lceil>duration (b_details b)\<rceil>] =
                 i # [Suc i ..< nat \<lceil>duration (b_details b)\<rceil>]"
      by (simp add: upt_conv_Cons)
    with True 1 show ?thesis
      by (subst monthlyLoop.simps) simp
  next
    case False
    then have "\<not> int i < \<lceil>duration (b_details b)\<rceil>"
      by (simp add: less_ceiling_iff)
    then have "[i ..< nat \<lceil>duration (b_details b)\<rceil>] = []" by simp
    with False show ?thesis by (subst monthlyLoop.simps) simp
  qed
qed

lemma generated_monthly:
  "b_monthly (generateMonthlyPayments b) =
     map (monthlyPaymentAt b) [0 ..< nat \<lceil>duration (b_details b)\<rceil>]"
  by (simp add: generateMonthlyPayments_def monthlyLoop_eq)

lemma booking_total_and_monthly_amounts:
  "totalAmount (b_pricing (calculateTotalAmount b)) =
     monthlyRent (b_pricing b) * duration (b_details b)
       + utilities (b_pricing b) * duration (b_details b) + deposit (b_pricing b)
   \<and> length (b_monthly (generateMonthlyPayments b)) = nat \<lceil>duration (b_details b)\<rceil>
   \<and> (\<forall>m \<in> set (b_monthly (generateMonthlyPayments b)).
          mon_amount m = monthlyRent (b_pricing b) + utilities (b_pricing b)
          \<and> mon_status m = M_pending)"
  by (auto simp: calculateTotalAmount_def generated_monthly monthlyPaymentAt_def Let_def)

lemma booking_example_amounts:
  "totalAmount (b_pricing (calculateTotalAmount (ex_booking B_pending))) = 12600000
   \<and> map mon_amount (b_monthly (generateMonthlyPayments (ex_booking B_pending))) =
        [3200000, 3200000, 3200000]
   \<and> map mon_dueDate (b_monthly (generateMonthlyPayments (ex_booking B_pending))) =
        [ex_day 2025 9 1, ex_day 2025 10 1, ex_day 2025 11 1]"
  by code_simp

text \<open>
  Claim C2 says that \<open>generateMonthlyPayments\<close> produces exactly \<open>duration\<close> entries whose
  due dates are the check-in date advanced by 0, 1, ... months. The total, the amounts
  and the statuses are as the claim has them (the two lemmas above, with the example of
  the specification). The due dates are not: \<open>setMonth\<close> keeps the day of the month, and
  a day that the target month lacks spills into the month after it. For a stay of four
  months from 31 December 2025 the third entry is due on 3 March 2026 and not in
  February, so that the months of the schedule are December, January, March, March.
  The number of entries is the duration rounded up: the loop runs while \<open>i < duration\<close>,
  and a duration of two and a half months gives three entries.
\<close>

theorem monthly_schedule_skips_a_month:
  "map mon_month (b_monthly (generateMonthlyPayments (ex_stay (ex_day 2025 11 31) 4)))
     = [''2025-12'', ''2026-01'', ''2026-03'', ''2026-03'']
   \<and> mon_dueDate (b_monthly (generateMonthlyPayments (ex_stay (ex_day 2025 11 31) 4)) ! 2)
       = ex_day 2026 2 3
   \<and> length (b_monthly (generateMonthlyPayments (ex_stay (ex_day 2025 9 1) (5 / 2)))) = 3"
  by code_simp

section \<open>Creating a booking\<close>

text \<open>
  Claim C3. For a tenant who asks for a room that is active and available and is not
  their own, creation answers with the conflict error exactly when some booking of that
  room is in one of the states pending, confirmed, deposit_paid or active and has
  \<open>existing.checkIn \<le> new.checkOut\<close> and \<open>existing.checkOut \<ge> new.checkIn\<close>; then the
  store is left as it was, so no booking is persisted.
\<close>

theorem create_conflict_exactly_on_overlap:
  assumes "u_role u = Tenant"
    and "findRoomById s (cr_roomId req) = Some rm"
    and "r_status rm = ''active''"
    and "r_isAvailable rm"
    and "r_landlord rm \<noteq> u_id u"
  shows "(fst (createBooking e u req s) = Inl Conflict) =
           (\<exists>b \<in> set (bookings s).
              b_room b = cr_roomId req
              \<and> b_status b \<in> {B_pending, B_confirmed, B_deposit_paid, B_active}
              \<and> getTime (checkInDate (b_details b)) \<le> getTime (cr_checkOutDate req)
              \<and> getTime (checkOutDate (b_details b)) \<ge> getTime (cr_checkInDate req))
         \<and> (fst (createBooking e u req s) = Inl Conflict \<longrightarrow>
              snd (createBooking e u req s) = s)"
proof (cases "find (overlaps (cr_roomId req) (cr_checkInDate req) (cr_checkOutDate req)) (bookings s)")
  case None
  then have no: "\<not> (\<exists>b \<in> set (bookings s).
      overlaps (cr_roomId req) (cr_checkInDate req) (cr_checkOutDate req) b)"
    by (auto simp: find_None_iff)
  have "fst (createBooking e u req s) \<noteq> Inl Conflict"
    using assms None by (simp add: createBooking_def authorize_def Let_def)
  with no show ?thesis by (auto simp: overlaps_def)
next
  case (Some b)
  then have "b \<in> set (bookings s)"
    and "overlaps (cr_roomId req) (cr_checkInDate req) (cr_checkOutDate req) b"
    by (auto simp: find_Some_iff)
  then have ex: "\<exists>b \<in> set (bookings s).
      overlaps (cr_roomId req) (cr_checkInDate req) (cr_checkOutDate req) b"
    by blast
  have "createBooking e u req s = (Inl Conflict, s)"
    using assms Some by (simp add: createBooking_def authorize_def)
  with ex show ?thesis by (auto simp: overlaps_def)
qed

theorem create_conflict_exactly_on_overlap_witness:
  "fst (createBooking ex_env (ex_user ''u3'' Tenant) ex_createReq (ex_store B_pending P_pending))
     = Inl Conflict
   \<and> snd (createBooking ex_env (ex_user ''u3'' Tenant) ex_createReq (ex_store B_pending P_pending))
       = ex_store B_pending P_pending
   \<and> fst (createBooking ex_env (ex_user ''u3'' Tenant) ex_createReq (ex_store B_cancelled P_pending))
       \<noteq> Inl Conflict"
proof -
  have g: "getTime (ex_day 2025 9 1) \<le> getTime (ex_day 2026 2 1)"
    "getTime (ex_day 2025 11 1) \<le> getTime (ex_day 2026 0 1)"
    by (simp_all add: getTime_def daysFromCivil_def ex_day_def Let_def)
  have r: "findRoomById (ex_store st ps) (cr_roomId ex_createReq) = Some ex_room" for st ps
    by (simp add: findRoomById_def ex_store_def ex_createReq_def ex_room_def)
  have a: "u_role (ex_user ''u3'' Tenant) = Tenant" "r_status ex_room = ''active''"
    "r_isAvailable ex_room" "r_landlord ex_room \<noteq> u_id (ex_user ''u3'' Tenant)"
    by (simp_all add: ex_user_def ex_room_def)
  note t = create_conflict_exactly_on_overlap [OF a(1) r a(2) a(3) a(4), of ex_env]
  have "fst (createBooking ex_env (ex_user ''u3'' Tenant) ex_createReq (ex_store B_pending P_pending))
     = Inl Conflict"
    using t [of B_pending P_pending] g
    by (simp add: ex_store_def ex_booking_def ex_createReq_def)
  moreover have "fst (createBooking ex_env (ex_user ''u3'' Tenant) ex_createReq (ex_store B_cancelled P_pending))
       \<noteq> Inl Conflict"
    using t [of B_cancelled P_pending]
    by (simp add: ex_store_def ex_booking_def ex_createReq_def)
  ultimately show ?thesis using t [of B_pending P_pending] by simp
qed

section \<open>Cancelling a booking\<close>



section \<open>The gateway callbacks\<close>



text \<open>
  The handler registered for \<open>/vnpay-return\<close>, which no request reaches, has no check of
  the payment's status in its body, where the IPN handler has one. Run on a completed
  payment whose booking has become active, it would complete the payment again and set
  the booking back to deposit_paid.
\<close>

lemma return_handler_has_no_completed_guard:
  "fst (vnpayReturnHandler ex_env (ex_params ''00'' ''5f1c'') (ex_store B_active P_completed))
     = SuccessPage (Some ''T1'') ''p1''
   \<and> map b_status (bookings (ex_store B_active P_completed)) = [B_active]
   \<and> map b_status
        (bookings (snd (vnpayReturnHandler ex_env (ex_params ''00'' ''5f1c'')
                          (ex_store B_active P_completed)))) = [B_deposit_paid]
   \<and> map p_completedAt (payments (ex_store B_active P_completed)) = [Some (ex_day 2025 9 3)]
   \<and> map p_completedAt
        (payments (snd (vnpayReturnHandler ex_env (ex_params ''00'' ''5f1c'')
                          (ex_store B_active P_completed)))) = [Some (ex_day 2025 9 5)]"
proof -
  have v: "signatureValid ex_env (ex_params ''00'' ''5f1c'')"
    by (simp add: signatureValid_iff ex_env_def ex_sign_def ex_params_def)
  show ?thesis
    by (simp add: vnpayReturnHandler_def signatureValid_parse [OF v] Let_def)
       (simp add: Let_def ex_env_def ex_params_def
                  ex_store_def ex_payment_def ex_booking_def findPaymentByTxnRef_def
                  findBookingById_def saveBooking_def savePayment_def saveDoc_def)
qed

lemma callbacks_without_valid_signature_change_nothing:
  "\<not> signatureValid e ps \<Longrightarrow>
   snd (vnpayIpn e ps s) = s
   \<and> (fst (vnpayIpn e ps s) = Ack 400 ''97'' \<or> fst (vnpayIpn e ps s) = Ack 500 ''99'')
   \<and> snd (getVnpayReturn e auth ps s) = s"
  using return_route_answers_first [of e auth ps s]
  by (auto simp: vnpayIpn_def signatureValid_def split: option.splits prod.splits)

text \<open>
  Claim C6 says that a request to either callback whose parameters fail the signature
  verification changes nothing, the return handler redirecting to the failure page and
  the IPN handler answering \<open>RspCode 97\<close>. Nothing is changed (the lemma above), and the
  IPN handler answers 400 with \<open>RspCode 97\<close> when the hash is wrong. The other answers
  differ. A return request is answered by the route \<open>GET /:id\<close> with the JSON status 401
  (no token) or 400 (with a token) and is never redirected. The IPN handler answers 500
  with \<open>RspCode 99\<close> when the verification throws: for a JSON body with a field named
  \<open>hasOwnProperty\<close>, on which \<open>sortObject\<close> calls \<open>obj.hasOwnProperty\<close>, and when the
  hash secret is not set.
\<close>

theorem callbacks_answer_invalid_signature_otherwise:
  "getVnpayReturn ex_env None (ex_params ''00'' ''0000'') (ex_store B_confirmed P_pending)
     = (JsonReply 401, ex_store B_confirmed P_pending)
   \<and> getVnpayReturn ex_env (Some (ex_user ''u1'' Tenant)) (ex_params ''00'' ''0000'')
        (ex_store B_confirmed P_pending)
       = (JsonReply 400, ex_store B_confirmed P_pending)
   \<and> vnpayIpn ex_env [''hasOwnProperty'' \<mapsto> ''1''] (ex_store B_confirmed P_pending)
       = (Ack 500 ''99'', ex_store B_confirmed P_pending)
   \<and> vnpayIpn (ex_env\<lparr>hashSecret := None\<rparr>) (ex_params ''00'' ''0000'')
        (ex_store B_confirmed P_pending)
       = (Ack 500 ''99'', ex_store B_confirmed P_pending)
   \<and> vnpayIpn ex_env (ex_params ''00'' ''0000'') (ex_store B_confirmed P_pending)
       = (Ack 400 ''97'', ex_store B_confirmed P_pending)"
  by (simp add: getVnpayReturn_def getPaymentRoute_def isMongoId_def
                vnpayIpn_def parsePaymentResult_def verifyPaymentResult_def
                sortObjectThrows_def Let_def ex_env_def ex_sign_def ex_params_def ex_user_def)

text \<open>
  Claim C10. In the IPN handler, a payload with a valid signature and a response code
  other than \<open>00\<close> whose reference resolves to a payment sets that payment to failed,
  with \<open>failedAt\<close> and the message of the code, whatever its status was, completed
  included: there is no guard on this branch. The bookings are not touched and the
  answer is \<open>RspCode 00\<close>.
\<close>

theorem ipn_failure_marks_failed:
  assumes "signatureValid e ps"
    and "ps ''vnp_ResponseCode'' \<noteq> Some ''00''"
    and "findPaymentByTxnRef s (ps ''vnp_TxnRef'') = Some p"
  shows "fst (vnpayIpn e ps s) = Ack 200 ''00''
         \<and> map_option p_status (findPaymentById (snd (vnpayIpn e ps s)) (p_id p)) = Some P_failed
         \<and> map_option p_failedAt (findPaymentById (snd (vnpayIpn e ps s)) (p_id p))
             = Some (Some (now e))
         \<and> map_option p_failureReason (findPaymentById (snd (vnpayIpn e ps s)) (p_id p))
             = Some (Some (getResponseMessage (ps ''vnp_ResponseCode'')))
         \<and> bookings (snd (vnpayIpn e ps s)) = bookings s"
  using assms(2,3)
  by (simp add: vnpayIpn_def signatureValid_parse [OF assms(1)] Let_def
                findPaymentById_savePayment)

theorem ipn_failure_marks_failed_witness:
  "fst (vnpayIpn ex_env (ex_params ''24'' ''5f1c'') (ex_store B_deposit_paid P_completed))
     = Ack 200 ''00''
   \<and> map_option p_status
        (findPaymentById
           (snd (vnpayIpn ex_env (ex_params ''24'' ''5f1c'') (ex_store B_deposit_paid P_completed)))
           ''p1'') = Some P_failed
   \<and> map_option p_failureReason
        (findPaymentById
           (snd (vnpayIpn ex_env (ex_params ''24'' ''5f1c'') (ex_store B_deposit_paid P_completed)))
           ''p1'')
       = Some (Some ''Giao dich khong thanh cong do: Khach hang huy giao dich'')
   \<and> map b_status
        (bookings (snd (vnpayIpn ex_env (ex_params ''24'' ''5f1c'')
                          (ex_store B_deposit_paid P_completed))))
       = [B_deposit_paid]"
proof -
  have v: "signatureValid ex_env (ex_params ''24'' ''5f1c'')"
    by (simp add: signatureValid_iff ex_env_def ex_sign_def ex_params_def)
  have c: "ex_params ''24'' ''5f1c'' ''vnp_ResponseCode'' \<noteq> Some ''00''"
    by (simp add: ex_params_def)
  have f: "findPaymentByTxnRef (ex_store B_deposit_paid P_completed)
             (ex_params ''24'' ''5f1c'' ''vnp_TxnRef'') = Some (ex_payment P_completed)"
    by (simp add: findPaymentByTxnRef_def ex_store_def ex_params_def ex_payment_def)
  have m: "getResponseMessage (ex_params ''24'' ''5f1c'' ''vnp_ResponseCode'')
             = ''Giao dich khong thanh cong do: Khach hang huy giao dich''"
    by (simp add: getResponseMessage_def ex_params_def)
  have i: "p_id (ex_payment P_completed) = ''p1''" by (simp add: ex_payment_def)
  have b: "map b_status (bookings (ex_store B_deposit_paid P_completed)) = [B_deposit_paid]"
    by (simp add: ex_store_def ex_booking_def)
  show ?thesis
    using ipn_failure_marks_failed [OF v c f] by (simp add: m i b)
qed

lemma ipn_success_first_delivery:
  assumes valid: "signatureValid e ps"
    and code: "ps ''vnp_ResponseCode'' = Some ''00''"
    and found: "findPaymentByTxnRef s (ps ''vnp_TxnRef'') = Some p"
  shows "vnpayIpn e ps s =
           (Ack 200 ''00'',
            savePayment
              (if p_status p \<noteq> P_completed
               then p\<lparr>p_vnpay :=
                        p_vnpay p ++ ps(''vnp_SecureHash'' := None, ''vnp_SecureHashType'' := None),
                      p_status := P_completed,
                      p_processedAt := Some (now e),
                      p_completedAt := Some (now e),
                      p_externalTransactionId := ps ''vnp_TransactionNo''\<rparr>
               else p\<lparr>p_vnpay :=
                        p_vnpay p ++ ps(''vnp_SecureHash'' := None, ''vnp_SecureHashType'' := None)\<rparr>)
              (case findBookingById s (p_booking p) of
                 None \<Rightarrow> s
               | Some b \<Rightarrow>
                   if p_status p \<noteq> P_completed \<and> p_type p = T_deposit \<and> b_status b = B_confirmed
                   then saveBooking
                          (b\<lparr>b_status := B_deposit_paid,
                             b_deposit := paidDeposit e p PM_vnpay (p_transactionId p)\<rparr>) s
                   else s))"
  using code found
  by (simp add: vnpayIpn_def signatureValid_parse [OF valid] Let_def paidDeposit_def
           split: option.splits)

text \<open>
  Claim C5, as the code has it. When the IPN handler receives a payload with a valid
  signature and the response code \<open>00\<close> whose reference resolves to a payment, it
  answers \<open>RspCode 00\<close> and saves the payment, the payload merged into its \<open>vnpay\<close>; a
  payment that was not completed becomes completed, with \<open>processedAt\<close>, \<open>completedAt\<close>
  and the gateway's transaction number. The booking of the payment is changed only if
  the payment was not completed, is a deposit and the booking is confirmed: then it
  becomes deposit_paid with its deposit record filled in; a booking in any other status
  is left as it was. A second delivery of the same payload changes nothing in the
  store and answers \<open>RspCode 00\<close> again. (The payload has no field named \<open>txnRef\<close>, the
  key of the lookup: the fields of the gateway all begin with \<open>vnp_\<close>.)
\<close>

theorem ipn_delivered_twice:
  assumes valid: "signatureValid e ps"
    and valid': "signatureValid e' ps"
    and code: "ps ''vnp_ResponseCode'' = Some ''00''"
    and found: "findPaymentByTxnRef s (ps ''vnp_TxnRef'') = Some p"
    and nokey: "ps ''txnRef'' = None"
  shows "fst (vnpayIpn e ps s) = Ack 200 ''00''
         \<and> findPaymentByTxnRef (snd (vnpayIpn e ps s)) (ps ''vnp_TxnRef'') =
             Some (if p_status p \<noteq> P_completed
                   then p\<lparr>p_vnpay :=
                            p_vnpay p
                              ++ ps(''vnp_SecureHash'' := None, ''vnp_SecureHashType'' := None),
                          p_status := P_completed,
                          p_processedAt := Some (now e),
                          p_completedAt := Some (now e),
                          p_externalTransactionId := ps ''vnp_TransactionNo''\<rparr>
                   else p\<lparr>p_vnpay :=
                            p_vnpay p
                              ++ ps(''vnp_SecureHash'' := None, ''vnp_SecureHashType'' := None)\<rparr>)
         \<and> bookings (snd (vnpayIpn e ps s)) =
             (case findBookingById s (p_booking p) of
                None \<Rightarrow> bookings s
              | Some b \<Rightarrow>
                  if p_status p \<noteq> P_completed \<and> p_type p = T_deposit \<and> b_status b = B_confirmed
                  then bookings
                         (saveBooking
                            (b\<lparr>b_status := B_deposit_paid,
                               b_deposit := paidDeposit e p PM_vnpay (p_transactionId p)\<rparr>) s)
                  else bookings s)
         \<and> vnpayIpn e' ps (snd (vnpayIpn e ps s)) = (Ack 200 ''00'', snd (vnpayIpn e ps s))"
proof -
  let ?stripped = "ps(''vnp_SecureHash'' := None, ''vnp_SecureHashType'' := None)"
  define p1 where
    "p1 = (if p_status p \<noteq> P_completed
           then p\<lparr>p_vnpay := p_vnpay p ++ ?stripped,
                  p_status := P_completed,
                  p_processedAt := Some (now e),
                  p_completedAt := Some (now e),
                  p_externalTransactionId := ps ''vnp_TransactionNo''\<rparr>
           else p\<lparr>p_vnpay := p_vnpay p ++ ?stripped\<rparr>)"
  define sB where
    "sB = (case findBookingById s (p_booking p) of
             None \<Rightarrow> s
           | Some b \<Rightarrow>
               if p_status p \<noteq> P_completed \<and> p_type p = T_deposit \<and> b_status b = B_confirmed
               then saveBooking
                      (b\<lparr>b_status := B_deposit_paid,
                         b_deposit := paidDeposit e p PM_vnpay (p_transactionId p)\<rparr>) s
               else s)"
  have first: "vnpayIpn e ps s = (Ack 200 ''00'', savePayment p1 sB)"
    unfolding p1_def sB_def by (rule ipn_success_first_delivery [OF valid code found])
  have pay: "payments sB = payments s"
    by (simp add: sB_def split: option.splits)
  have id: "p_id p1 = p_id p" and st: "p_status p1 = P_completed"
    and vn: "p_vnpay p1 = p_vnpay p ++ ?stripped"
    by (simp_all add: p1_def)
  from found have "p_vnpay p ''txnRef'' = ps ''vnp_TxnRef''"
    unfolding findPaymentByTxnRef_def find_Some_iff by blast
  with nokey have ref: "p_vnpay p1 ''txnRef'' = ps ''vnp_TxnRef''"
    by (simp add: vn map_add_def)
  from found pay have "find (\<lambda>q. p_vnpay q ''txnRef'' = ps ''vnp_TxnRef'') (payments sB) = Some p"
    by (simp add: findPaymentByTxnRef_def)
  from find_saveDoc_same
         [where key = p_id and d = p1 and P = "\<lambda>q. p_vnpay q ''txnRef'' = ps ''vnp_TxnRef''",
          OF this id ref]
  have again: "findPaymentByTxnRef (savePayment p1 sB) (ps ''vnp_TxnRef'') = Some p1"
    by (simp add: findPaymentByTxnRef_def savePayment_def)
  have "p_vnpay p1 ++ ?stripped = p_vnpay p1"
    by (simp add: vn)
  then have keep: "p1\<lparr>p_vnpay := p_vnpay p1 ++ ?stripped\<rparr> = p1"
    by simp
  have twice: "savePayment p1 (savePayment p1 sB) = savePayment p1 sB"
    by (simp add: savePayment_def saveDoc_idem)
  have "vnpayIpn e' ps (savePayment p1 sB) =
          (Ack 200 ''00'',
           savePayment (p1\<lparr>p_vnpay := p_vnpay p1 ++ ?stripped\<rparr>) (savePayment p1 sB))"
    by (simp add: ipn_success_first_delivery [OF valid' code again] st split: option.splits)
  then have second: "vnpayIpn e' ps (savePayment p1 sB) = (Ack 200 ''00'', savePayment p1 sB)"
    by (simp only: keep twice)
  have books: "bookings (savePayment p1 sB) =
      (case findBookingById s (p_booking p) of
                None \<Rightarrow> bookings s
              | Some b \<Rightarrow>
                  if p_status p \<noteq> P_completed \<and> p_type p = T_deposit \<and> b_status b = B_confirmed
                  then bookings
                         (saveBooking
                            (b\<lparr>b_status := B_deposit_paid,
                               b_deposit := paidDeposit e p PM_vnpay (p_transactionId p)\<rparr>) s)
                  else bookings s)"
    by (simp add: sB_def split: option.splits)
  have "findPaymentByTxnRef (snd (vnpayIpn e ps s)) (ps ''vnp_TxnRef'') = Some p1"
    by (simp add: first again)
  moreover have "bookings (snd (vnpayIpn e ps s)) =
      (case findBookingById s (p_booking p) of
                None \<Rightarrow> bookings s
              | Some b \<Rightarrow>
                  if p_status p \<noteq> P_completed \<and> p_type p = T_deposit \<and> b_status b = B_confirmed
                  then bookings
                         (saveBooking
                            (b\<lparr>b_status := B_deposit_paid,
                               b_deposit := paidDeposit e p PM_vnpay (p_transactionId p)\<rparr>) s)
                  else bookings s)"
    using books by (simp add: first)
  moreover have "vnpayIpn e' ps (snd (vnpayIpn e ps s)) = (Ack 200 ''00'', snd (vnpayIpn e ps s))"
    by (simp add: first second)
  moreover have "fst (vnpayIpn e ps s) = Ack 200 ''00''"
    by (simp add: first)
  ultimately show ?thesis
    unfolding p1_def by blast
qed

theorem ipn_delivered_twice_witness:
  "fst (vnpayIpn ex_env (ex_params ''00'' ''5f1c'') (ex_store B_confirmed P_pending))
     = Ack 200 ''00''
   \<and> map_option p_status
        (findPaymentByTxnRef
           (snd (vnpayIpn ex_env (ex_params ''00'' ''5f1c'') (ex_store B_confirmed P_pending)))
           (Some ''T1'')) = Some P_completed
   \<and> map b_status
        (bookings (snd (vnpayIpn ex_env (ex_params ''00'' ''5f1c'')
                          (ex_store B_confirmed P_pending)))) = [B_deposit_paid]
   \<and> vnpayIpn (ex_env\<lparr>now := ex_day 2025 9 6\<rparr>) (ex_params ''00'' ''5f1c'')
        (snd (vnpayIpn ex_env (ex_params ''00'' ''5f1c'') (ex_store B_confirmed P_pending)))
       = (Ack 200 ''00'',
          snd (vnpayIpn ex_env (ex_params ''00'' ''5f1c'') (ex_store B_confirmed P_pending)))"
proof -
  have v: "signatureValid ex_env (ex_params ''00'' ''5f1c'')"
    by (simp add: signatureValid_iff ex_env_def ex_sign_def ex_params_def)
  have v': "signatureValid (ex_env\<lparr>now := ex_day 2025 9 6\<rparr>) (ex_params ''00'' ''5f1c'')"
    by (simp add: signatureValid_iff ex_env_def ex_sign_def ex_params_def)
  have c: "ex_params ''00'' ''5f1c'' ''vnp_ResponseCode'' = Some ''00''"
    by (simp add: ex_params_def)
  have r: "ex_params ''00'' ''5f1c'' ''vnp_TxnRef'' = Some ''T1''"
    by (simp add: ex_params_def)
  have f: "findPaymentByTxnRef (ex_store B_confirmed P_pending)
             (ex_params ''00'' ''5f1c'' ''vnp_TxnRef'') = Some (ex_payment P_pending)"
    by (simp add: findPaymentByTxnRef_def ex_store_def ex_params_def ex_payment_def)
  have n: "ex_params ''00'' ''5f1c'' ''txnRef'' = None"
    by (simp add: ex_params_def)
  have p: "p_status (ex_payment P_pending) = P_pending" "p_type (ex_payment P_pending) = T_deposit"
    "p_booking (ex_payment P_pending) = ''b1''"
    by (simp_all add: ex_payment_def)
  have b: "findBookingById (ex_store B_confirmed P_pending) ''b1'' = Some (ex_booking B_confirmed)"
    "b_status (ex_booking B_confirmed) = B_confirmed"
    "b_id (ex_booking B_confirmed) = ''b1''"
    "bookings (ex_store B_confirmed P_pending) = [ex_booking B_confirmed]"
    by (simp_all add: findBookingById_def ex_store_def ex_booking_def)
  show ?thesis
    using ipn_delivered_twice [OF v v' c f n]
    by (simp add: r p b saveBooking_def saveDoc_def)
qed

text \<open>
  Claim C5 has the booking mutated once. For the deposit payment of a booking that is
  still pending, the first delivery completes the payment and leaves the booking as it
  was, and so does the second: the booking is never changed.
\<close>

theorem ipn_pending_booking_counterexample:
  "map p_status
     (payments (snd (vnpayIpn ex_env (ex_params ''00'' ''5f1c'') (ex_store B_pending P_pending))))
     = [P_completed]
   \<and> bookings (snd (vnpayIpn ex_env (ex_params ''00'' ''5f1c'') (ex_store B_pending P_pending)))
       = bookings (ex_store B_pending P_pending)
   \<and> bookings
        (snd (vnpayIpn ex_env (ex_params ''00'' ''5f1c'')
               (snd (vnpayIpn ex_env (ex_params ''00'' ''5f1c'') (ex_store B_pending P_pending)))))
       = bookings (ex_store B_pending P_pending)"
proof -
  have v: "signatureValid ex_env (ex_params ''00'' ''5f1c'')"
    by (simp add: signatureValid_iff ex_env_def ex_sign_def ex_params_def)
  have c: "ex_params ''00'' ''5f1c'' ''vnp_ResponseCode'' = Some ''00''"
    by (simp add: ex_params_def)
  have f: "findPaymentByTxnRef (ex_store B_pending P_pending)
             (ex_params ''00'' ''5f1c'' ''vnp_TxnRef'') = Some (ex_payment P_pending)"
    by (simp add: findPaymentByTxnRef_def ex_store_def ex_params_def ex_payment_def)
  have p: "p_status (ex_payment P_pending) = P_pending" "p_booking (ex_payment P_pending) = ''b1''"
    by (simp_all add: ex_payment_def)
  have b: "findBookingById (ex_store B_pending P_pending) ''b1'' = Some (ex_booking B_pending)"
    "b_status (ex_booking B_pending) = B_pending"
    by (simp_all add: findBookingById_def ex_store_def ex_booking_def)
  have first: "vnpayIpn ex_env (ex_params ''00'' ''5f1c'') (ex_store B_pending P_pending) =
      (Ack 200 ''00'',
       savePayment
         ((ex_payment P_pending)
            \<lparr>p_vnpay := p_vnpay (ex_payment P_pending)
                 ++ (ex_params ''00'' ''5f1c'')
                      (''vnp_SecureHash'' := None, ''vnp_SecureHashType'' := None),
             p_status := P_completed,
             p_processedAt := Some (now ex_env),
             p_completedAt := Some (now ex_env),
             p_externalTransactionId := ex_params ''00'' ''5f1c'' ''vnp_TransactionNo''\<rparr>)
         (ex_store B_pending P_pending))"
    by (simp add: ipn_success_first_delivery [OF v c f] p b)
  have pays: "map p_status
     (payments (snd (vnpayIpn ex_env (ex_params ''00'' ''5f1c'') (ex_store B_pending P_pending))))
     = [P_completed]"
    unfolding first by (simp add: savePayment_def saveDoc_def ex_store_def ex_payment_def)
  have again: "bookings (snd (vnpayIpn ex_env (ex_params ''00'' ''5f1c'') s)) = bookings s"
    if "bookings s = bookings (ex_store B_pending P_pending)" for s
  proof (cases "findPaymentByTxnRef s (ex_params ''00'' ''5f1c'' ''vnp_TxnRef'')")
    case None
    then show ?thesis
      by (simp add: vnpayIpn_def signatureValid_parse [OF v])
  next
    case (Some q)
    have "findBookingById s k = findBookingById (ex_store B_pending P_pending) k" for k
      using that by (simp add: findBookingById_def)
    then show ?thesis
      by (simp add: ipn_success_first_delivery [OF v c Some] ex_store_def ex_booking_def
                    findBookingById_def split: option.splits)
  qed
  have one: "bookings (snd (vnpayIpn ex_env (ex_params ''00'' ''5f1c'') (ex_store B_pending P_pending)))
       = bookings (ex_store B_pending P_pending)"
    by (rule again) simp
  have two: "bookings
        (snd (vnpayIpn ex_env (ex_params ''00'' ''5f1c'')
               (snd (vnpayIpn ex_env (ex_params ''00'' ''5f1c'') (ex_store B_pending P_pending)))))
       = bookings (ex_store B_pending P_pending)"
    using again [OF one] one by simp
  from pays one two show ?thesis by simp
qed

section \<open>Cancelling through the status update\<close>

text \<open>
  Claim C8 says that both ways of cancelling a booking mark its pending payment as
  failed. The general status update records the cancellation but never touches the
  payments: an admin who sets a pending booking to cancelled leaves its payment pending,
  where the cancel endpoint on the same store sets it to failed.
\<close>

theorem status_update_cancel_leaves_payment_pending:
  "map b_status
     (bookings (snd (updateStatus ex_env (ex_user ''u9'' Admin) ''b1'' (ex_statusReq B_cancelled)
                       (ex_store B_pending P_pending)))) = [B_cancelled]
   \<and> map (map_option cancelledBy \<circ> b_cancellation)
       (bookings (snd (updateStatus ex_env (ex_user ''u9'' Admin) ''b1'' (ex_statusReq B_cancelled)
                       (ex_store B_pending P_pending)))) = [Some Admin]
   \<and> map p_status
       (payments (snd (updateStatus ex_env (ex_user ''u9'' Admin) ''b1'' (ex_statusReq B_cancelled)
                       (ex_store B_pending P_pending)))) = [P_pending]
   \<and> map p_status
       (payments (snd (cancelBooking ex_env (ex_user ''u9'' Admin) ''b1'' None
                       (ex_store B_pending P_pending)))) = [P_failed]"
  by (simp add: updateStatus_def cancelBooking_def checkBookingAccess_def canBeCancelled_def
                validStatuses_def Let_def ex_env_def ex_user_def ex_statusReq_def
                ex_store_def ex_payment_def ex_booking_def findPaymentByBooking_def
                findBookingById_def saveBooking_def savePayment_def saveDoc_def)

section \<open>Refunds\<close>

text \<open>
  Claim C9 says that \<open>processRefund\<close> throws unless the payment is completed and has no
  refund in progress. As \<open>&&\<close> binds tighter than \<open>||\<close> in \<open>canBeRefunded\<close>, a payment
  whose refund status is pending (the schema default) passes whatever its own status:
  a refund of a payment that is still pending is accepted and set to processing.
\<close>

theorem refund_of_pending_payment_is_accepted:
  "p_status (ex_payment P_pending) = P_pending
   \<and> canBeRefunded (ex_payment P_pending)
   \<and> processRefund (ex_day 2025 9 5) None (Some ''changed my mind'') (ex_payment P_pending)
       = Inr ((ex_payment P_pending)
               \<lparr>p_refund := \<lparr>rf_amount = Some 3000000,
                              rf_reason = Some ''changed my mind'',
                              rf_processedAt = Some (ex_day 2025 9 5),
                              rf_refundTransactionId = None,
                              rf_status = Some R_processing\<rparr>\<rparr>)"
  by (simp add: processRefund_def canBeRefunded_def orNumber_def ex_payment_def)

section \<open>Booking status and deposit payment\<close>










text \<open>
  The case left out above: a landlord sets to deposit_paid a pending booking whose room
  document has been deleted (a room with none but pending bookings can be deleted),
  giving no description. Building the description throws, the \<open>catch\<close> around the
  payment step swallows the error, and the booking is saved as deposit_paid while its
  payment stays pending.
\<close>

lemma status_update_swallows_payment_error:
  "swallowsPaymentError ex_env
     (StatusUpdate (ex_user ''u2'' Landlord) ''b1'' (ex_statusReq B_deposit_paid))
     ((ex_store B_pending P_pending)\<lparr>rooms := []\<rparr>)
   \<and> map b_status
       (bookings (runOperation ex_env
          (StatusUpdate (ex_user ''u2'' Landlord) ''b1'' (ex_statusReq B_deposit_paid))
          ((ex_store B_pending P_pending)\<lparr>rooms := []\<rparr>))) = [B_deposit_paid]
   \<and> map p_status
       (payments (runOperation ex_env
          (StatusUpdate (ex_user ''u2'' Landlord) ''b1'' (ex_statusReq B_deposit_paid))
          ((ex_store B_pending P_pending)\<lparr>rooms := []\<rparr>))) = [P_pending]"
  by (simp add: swallowsPaymentError_def updateStatus_def markDepositPaid_def
                requestedDescription_def orString_def Let_def validStatuses_def
                findRoomById_def findBookingById_def saveBooking_def saveDoc_def
                ex_statusReq_def ex_store_def ex_user_def ex_booking_def ex_payment_def)


end
